theory Spec2Isabelle
  imports Complex_Main
begin

section \<open>The typed object graph of \<^verbatim>\<open>emails.controller.ts\<close>\<close>

text \<open>
  Every class of the controller becomes a record with the fields of the class, in the
  order of the class. A TypeScript \<^verbatim>\<open>string\<close> is a \<^typ>\<open>string\<close>, a \<^verbatim>\<open>boolean\<close>
  a \<^typ>\<open>bool\<close>, an array a list. A \<^verbatim>\<open>number\<close> is a \<^typ>\<open>real\<close>: the finite doubles
  are real numbers and the only operation the controller applies to a number is the
  comparison with \<open>1000\<close> (NaN cannot come out of a JSON document).
  A field holds a value of its declared type: a field that is \<^verbatim>\<open>null\<close> or
  \<^verbatim>\<open>undefined\<close> at run time is outside this model.
  Where two classes share a field name the selector is written with the class name,
  as in \<open>Mail.timestamp\<close> and \<open>Receipt.timestamp\<close>.
\<close>

record Header =
  name :: string
  "value" :: string

record CommonHeaders =
  returnPath :: string
  "from" :: "string list"
  date :: string
  to :: "string list"
  messageId :: string
  subject :: string

record Mail =
  timestamp :: string
  source :: string
  messageId :: string
  destination :: "string list"
  headersTruncated :: bool
  headers :: "Header list"
  commonHeaders :: CommonHeaders

record Action =
  type :: string
  topicArn :: string

record Verdict =
  status :: string

record Receipt =
  timestamp :: string
  processingTimeMillis :: real
  recipients :: "string list"
  spamVerdict :: Verdict
  virusVerdict :: Verdict
  spfVerdict :: Verdict
  dkimVerdict :: Verdict
  dmarcVerdict :: Verdict
  dmarcPolicy :: string
  action :: Action

record Ses =
  receipt :: Receipt
  mail :: Mail

record Record =
  eventVersion :: string
  ses :: Ses
  eventSource :: string

record Root =
  Records :: "Record list"

text \<open>
  \<^verbatim>\<open>new C()\<close> runs the field initialisers of the class \<open>C\<close>: empty text, \<open>0\<close>,
  \<^verbatim>\<open>false\<close>, the empty array, and \<^verbatim>\<open>new D()\<close> for a field of class \<open>D\<close>.
\<close>

definition new_Header :: Header where
  "new_Header = \<lparr>name = '''', value = ''''\<rparr>"

definition new_CommonHeaders :: CommonHeaders where
  "new_CommonHeaders =
     \<lparr>returnPath = '''', from = [], date = '''', to = [],
      CommonHeaders.messageId = '''', subject = ''''\<rparr>"

definition new_Mail :: Mail where
  "new_Mail =
     \<lparr>Mail.timestamp = '''', source = '''', Mail.messageId = '''', destination = [],
      headersTruncated = False, headers = [], commonHeaders = new_CommonHeaders\<rparr>"

definition new_Action :: Action where
  "new_Action = \<lparr>type = '''', topicArn = ''''\<rparr>"

definition new_Verdict :: Verdict where
  "new_Verdict = \<lparr>status = ''''\<rparr>"

definition new_Receipt :: Receipt where
  "new_Receipt =
     \<lparr>Receipt.timestamp = '''', processingTimeMillis = 0, recipients = [],
      spamVerdict = new_Verdict, virusVerdict = new_Verdict, spfVerdict = new_Verdict,
      dkimVerdict = new_Verdict, dmarcVerdict = new_Verdict, dmarcPolicy = '''',
      action = new_Action\<rparr>"

definition new_Ses :: Ses where
  "new_Ses = \<lparr>receipt = new_Receipt, mail = new_Mail\<rparr>"

definition new_Record :: Record where
  "new_Record = \<lparr>eventVersion = '''', ses = new_Ses, eventSource = ''''\<rparr>"


text \<open>
  The response object. \<open>emisor\<close> and the elements of \<open>receptor\<close> are read with
  \<^verbatim>\<open>[0]\<close> from the array that \<^verbatim>\<open>split\<close> returns; reading index \<open>0\<close> of an empty
  array gives \<^verbatim>\<open>undefined\<close> in JavaScript, so the value read is optional here and
  \<open>None\<close> stands for \<^verbatim>\<open>undefined\<close>. (Lemma \<open>index0_split\<close> below shows that the value is
  always there.)
\<close>

record ResponseDTO =
  spam :: bool
  virus :: bool
  dns :: bool
  mes :: string
  retrasado :: bool
  emisor :: "string option"
  receptor :: "string option list"

section \<open>The request body and the engine\<close>

text \<open>
  The body of the request is an untyped JSON value. An object is an association list;
  a key is looked up with \<^const>\<open>map_of\<close>.
\<close>

datatype json =
    JNull
  | JBool bool
  | JNum real
  | JStr string
  | JArr "json list"
  | JObj "(string \<times> json) list"

text \<open>
  The ways the handler can fail. \<open>TypeError\<close> is what the JavaScript engine throws
  when a property of \<^verbatim>\<open>undefined\<close> is read; on a root whose fields hold values of
  their declared types it is the only exception lines 160 to 173 can raise.
  \<open>EmptyRecordSet\<close> and \<open>InvalidTimestamp\<close> are the failure kinds named by the
  specification; no line of the controller raises them, and they are part of the type
  only so that statements about them can be written down.
\<close>

datatype failure = TypeError | EmptyRecordSet | InvalidTimestamp

text \<open>
  The date functions of the engine are not part of the controller; they are parameters.
  \<open>Date_parse\<close> is the time value of \<^verbatim>\<open>new Date(s)\<close> in milliseconds since the epoch,
  \<open>None\<close> for NaN (an invalid date). \<open>month_long\<close> is what
  \<^verbatim>\<open>toLocaleString('default', {month: 'long'})\<close> prints for a valid time value; it
  depends on the locale and the time zone of the process.
\<close>

record js_env =
  Date_parse :: "string \<Rightarrow> int option"
  month_long :: "int \<Rightarrow> string"

text \<open>
  \<^verbatim>\<open>new Date(s).toLocaleString('default', {month: 'long'})\<close>: an invalid date is
  printed as the text \<^verbatim>\<open>Invalid Date\<close>; no exception is thrown.
\<close>

definition toLocaleString_month :: "js_env \<Rightarrow> string \<Rightarrow> string" where
  "toLocaleString_month env s =
     (case Date_parse env s of
        None \<Rightarrow> ''Invalid Date''
      | Some t \<Rightarrow> month_long env t)"

text \<open>\<^verbatim>\<open>xs[0]\<close>: the first element, \<^verbatim>\<open>undefined\<close> when the array is empty.\<close>

definition index0 :: "'a list \<Rightarrow> 'a option" where
  "index0 xs = (case xs of [] \<Rightarrow> None | x # _ \<Rightarrow> Some x)"

text \<open>
  \<^verbatim>\<open>s.split(sep)\<close> for a separator of one character: the pieces of \<open>s\<close> between the
  occurrences of \<open>sep\<close>, in order; a string without \<open>sep\<close> is its own single piece.
\<close>

function split :: "char \<Rightarrow> string \<Rightarrow> string list" where
  "split sep s =
     (case dropWhile (\<lambda>c. c \<noteq> sep) s of
        [] \<Rightarrow> [s]
      | _ # rest \<Rightarrow> takeWhile (\<lambda>c. c \<noteq> sep) s # split sep rest)"
  by pat_completeness auto
termination
proof (relation "measure (\<lambda>(sep, s). length s)")
  show "wf (measure (\<lambda>(sep, s). length s))"
    by simp
next
  fix sep :: char and s :: string and x rest
  assume "dropWhile (\<lambda>c. c \<noteq> sep) s = x # rest"
  then have "length rest < length (dropWhile (\<lambda>c. c \<noteq> sep) s)"
    by simp
  also have "\<dots> \<le> length s"
    by (rule length_dropWhile_le)
  finally show "((sep, rest), (sep, s)) \<in> measure (\<lambda>(sep, s). length s)"
    by simp
qed

declare split.simps [simp del]

section \<open>The handler\<close>

text \<open>
  Lines 160 to 173 of \<^verbatim>\<open>handleEmail\<close>, on the decoded root \<open>rt\<close> (\<open>root\<close> is the
  name of a constant of the library). \<^verbatim>\<open>root.Records[0]\<close> is
  \<^verbatim>\<open>undefined\<close> when the array is empty, and \<^verbatim>\<open>record.ses\<close> then throws a TypeError.
\<close>

definition summarize :: "js_env \<Rightarrow> Root \<Rightarrow> failure + ResponseDTO" where
  "summarize env rt =
     (case index0 (Records rt) of
        None \<Rightarrow> Inl TypeError
      | Some record \<Rightarrow>
          (let s = ses record;
               r = receipt s;
               m = mail s
           in Inr
             \<lparr>spam = (status (spamVerdict r) = ''PASS''),
              virus = (status (virusVerdict r) = ''PASS''),
              dns = (status (spfVerdict r) = ''PASS'' \<and> status (dkimVerdict r) = ''PASS''
                     \<and> status (dmarcVerdict r) = ''PASS''),
              mes = toLocaleString_month env (Mail.timestamp m),
              retrasado = (processingTimeMillis r > 1000),
              emisor = index0 (split (CHR ''@'') (source m)),
              receptor = map (\<lambda>email. index0 (split (CHR ''@'') email)) (destination m)\<rparr>))"

text \<open>
  \<^verbatim>\<open>handleEmail(body)\<close>, lines 157 to 173. \<^verbatim>\<open>jsonConvert.deserializeObject\<close> belongs to
  the package json2typescript, which is not part of the sources; the handler takes it as
  a parameter. An exception of the decoder is not caught: it leaves the handler as it is.
\<close>

definition handleEmail ::
  "(json \<Rightarrow> failure + Root) \<Rightarrow> js_env \<Rightarrow> json \<Rightarrow> failure + ResponseDTO" where
  "handleEmail deserializeObject env body =
     (case deserializeObject body of
        Inl e \<Rightarrow> Inl e
      | Inr rt \<Rightarrow> summarize env rt)"

section \<open>A sample engine\<close>

text \<open>
  The theorems below hold for every engine. To evaluate the handler on concrete inputs
  one engine is fixed: its parser reads the ISO form \<^verbatim>\<open>YYYY-MM-DDTHH:mm:ssZ\<close> and takes
  every other text for an invalid date (real engines read further formats), its zone is
  UTC and its month names are the English ones.
\<close>

definition digit :: "char \<Rightarrow> int option" where
  "digit c =
     (let n = (of_char c :: nat)
      in if 48 \<le> n \<and> n \<le> 57 then Some (int n - 48) else None)"

fun digits :: "int \<Rightarrow> string \<Rightarrow> int option" where
  "digits acc [] = Some acc"
| "digits acc (c # cs) =
     (case digit c of
        None \<Rightarrow> None
      | Some d \<Rightarrow> digits (10 * acc + d) cs)"

text \<open>Days between the first of January 1970 and a date of the Gregorian calendar.\<close>

definition days_from_civil :: "int \<Rightarrow> int \<Rightarrow> int \<Rightarrow> int" where
  "days_from_civil y m d =
     (let y' = (if m \<le> 2 then y - 1 else y);
          era = y' div 400;
          yoe = y' - era * 400;
          doy = (153 * (if m > 2 then m - 3 else m + 9) + 2) div 5 + d - 1;
          doe = yoe * 365 + yoe div 4 - yoe div 100 + doy
      in era * 146097 + doe - 719468)"

text \<open>The month (1 to 12) of the day that lies \<open>z\<close> days after the first of January 1970.\<close>

definition month_of_days :: "int \<Rightarrow> int" where
  "month_of_days z =
     (let z' = z + 719468;
          era = z' div 146097;
          doe = z' - era * 146097;
          yoe = (doe - doe div 1460 + doe div 36524 - doe div 146096) div 365;
          doy = doe - (365 * yoe + yoe div 4 - yoe div 100);
          mp = (5 * doy + 2) div 153
      in if mp < 10 then mp + 3 else mp - 9)"

definition iso_parse :: "string \<Rightarrow> int option" where
  "iso_parse s =
     (if length s = 20 \<and> s ! 4 = CHR ''-'' \<and> s ! 7 = CHR ''-'' \<and> s ! 10 = CHR ''T''
         \<and> s ! 13 = CHR '':'' \<and> s ! 16 = CHR '':'' \<and> s ! 19 = CHR ''Z''
      then
        (case (digits 0 (take 4 s), digits 0 (take 2 (drop 5 s)),
               digits 0 (take 2 (drop 8 s)), digits 0 (take 2 (drop 11 s)),
               digits 0 (take 2 (drop 14 s)), digits 0 (take 2 (drop 17 s))) of
           (Some y, Some mo, Some d, Some h, Some mi, Some sec) \<Rightarrow>
             if 1 \<le> mo \<and> mo \<le> 12 \<and> 1 \<le> d \<and> d \<le> 31 \<and> h \<le> 23 \<and> mi \<le> 59 \<and> sec \<le> 59
             then Some ((((days_from_civil y mo d * 24 + h) * 60 + mi) * 60 + sec) * 1000)
             else None
         | _ \<Rightarrow> None)
      else None)"

definition english_months :: "string list" where
  "english_months =
     [''January'', ''February'', ''March'', ''April'', ''May'', ''June'', ''July'',
      ''August'', ''September'', ''October'', ''November'', ''December'']"

definition english_month_utc :: "int \<Rightarrow> string" where
  "english_month_utc t = english_months ! nat (month_of_days (t div 86400000) - 1)"

definition sample_env :: js_env where
  "sample_env = \<lparr>Date_parse = iso_parse, month_long = english_month_utc\<rparr>"

section \<open>The decoder, modelled from the specification\<close>

text \<open>
  The controller declares, with \<^verbatim>\<open>@JsonProperty(key, type)\<close>, the key and the expected
  shape of every field; these declarations are in the sources and the decoders below
  follow them field by field. What the decoder does with a declaration is decided by
  \<^verbatim>\<open>JsonConvert.deserializeObject\<close> of the package json2typescript, whose code is not
  part of the sources. The definitions of this section therefore follow sections 4.1 and
  4.3 of the specification.
\<close>

text \<open>
  Modelled from the spec: \<^verbatim>\<open>value[fieldName]\<close> of section 4.3, for the missing
  json2typescript. The key is absent (\<open>None\<close>) when the object does not bind it, and also
  when the value is no mapping at all. Keys of an object are distinct; of two bindings
  of one key the first would be read.
\<close>

definition lookup :: "json \<Rightarrow> string \<Rightarrow> json option" where
  "lookup v k = (case v of JObj kvs \<Rightarrow> map_of kvs k | _ \<Rightarrow> None)"

text \<open>
  Modelled from the spec: the conversions of the ScalarCoercer (section 4.1) for a value
  that is present but of another scalar type than the target, for the missing
  json2typescript. The specification converts \<open>using the natural textual/numeric
  representation where unambiguous\<close> and does not say which representations those are,
  so they are a parameter: \<open>None\<close> where the value has no unambiguous representation.
\<close>

record conversions =
  to_text :: "json \<Rightarrow> string option"
  to_number :: "json \<Rightarrow> real option"
  to_boolean :: "json \<Rightarrow> bool option"

text \<open>
  Modelled from the spec: \<open>coerce(value, target_kind, default)\<close> of section 4.1 at the
  target kind text, for the missing json2typescript. A text is returned unchanged, a
  number or a boolean is converted where the conversion is unambiguous, and everything
  else (a missing key, null, a list, a mapping, a failed conversion) gives the default.
\<close>

fun coerce_text :: "conversions \<Rightarrow> json option \<Rightarrow> string \<Rightarrow> string" where
  "coerce_text cv (Some (JStr s)) d = s"
| "coerce_text cv (Some (JNum n)) d = (case to_text cv (JNum n) of Some s \<Rightarrow> s | None \<Rightarrow> d)"
| "coerce_text cv (Some (JBool b)) d = (case to_text cv (JBool b) of Some s \<Rightarrow> s | None \<Rightarrow> d)"
| "coerce_text cv (Some JNull) d = d"
| "coerce_text cv (Some (JArr xs)) d = d"
| "coerce_text cv (Some (JObj kvs)) d = d"
| "coerce_text cv None d = d"

text \<open>
  Modelled from the spec: \<open>coerce\<close> of section 4.1 at the target kind number, for the
  missing json2typescript.
\<close>

fun coerce_number :: "conversions \<Rightarrow> json option \<Rightarrow> real \<Rightarrow> real" where
  "coerce_number cv (Some (JNum n)) d = n"
| "coerce_number cv (Some (JStr s)) d = (case to_number cv (JStr s) of Some n \<Rightarrow> n | None \<Rightarrow> d)"
| "coerce_number cv (Some (JBool b)) d = (case to_number cv (JBool b) of Some n \<Rightarrow> n | None \<Rightarrow> d)"
| "coerce_number cv (Some JNull) d = d"
| "coerce_number cv (Some (JArr xs)) d = d"
| "coerce_number cv (Some (JObj kvs)) d = d"
| "coerce_number cv None d = d"

text \<open>
  Modelled from the spec: \<open>coerce\<close> of section 4.1 at the target kind boolean, for the
  missing json2typescript.
\<close>

fun coerce_boolean :: "conversions \<Rightarrow> json option \<Rightarrow> bool \<Rightarrow> bool" where
  "coerce_boolean cv (Some (JBool b)) d = b"
| "coerce_boolean cv (Some (JStr s)) d = (case to_boolean cv (JStr s) of Some b \<Rightarrow> b | None \<Rightarrow> d)"
| "coerce_boolean cv (Some (JNum n)) d = (case to_boolean cv (JNum n) of Some b \<Rightarrow> b | None \<Rightarrow> d)"
| "coerce_boolean cv (Some JNull) d = d"
| "coerce_boolean cv (Some (JArr xs)) d = d"
| "coerce_boolean cv (Some (JObj kvs)) d = d"
| "coerce_boolean cv None d = d"

text \<open>
  Modelled from the spec: the shape \<open>Scalar(kind, default)\<close> of section 4.3, for the
  missing json2typescript: look the key up and coerce. The defaults are the field
  initialisers of the classes: empty text, \<open>0\<close> and \<open>false\<close>.
\<close>

definition scalar_text :: "conversions \<Rightarrow> json \<Rightarrow> string \<Rightarrow> string" where
  "scalar_text cv v k = coerce_text cv (lookup v k) ''''"

definition scalar_number :: "conversions \<Rightarrow> json \<Rightarrow> string \<Rightarrow> real" where
  "scalar_number cv v k = coerce_number cv (lookup v k) 0"

definition scalar_boolean :: "conversions \<Rightarrow> json \<Rightarrow> string \<Rightarrow> bool" where
  "scalar_boolean cv v k = coerce_boolean cv (lookup v k) False"

text \<open>
  Modelled from the spec: the shape \<open>Nested(T)\<close> of section 4.3, for the missing
  json2typescript. A mapping is decoded as \<open>T\<close>; for an absent key and for any value that
  is no mapping, \<open>T\<close> is decoded from the empty mapping.
\<close>

definition nested_elem :: "(json \<Rightarrow> 'a) \<Rightarrow> json \<Rightarrow> 'a" where
  "nested_elem dec x = (case x of JObj kvs \<Rightarrow> dec (JObj kvs) | _ \<Rightarrow> dec (JObj []))"

definition nested :: "(json \<Rightarrow> 'a) \<Rightarrow> json \<Rightarrow> string \<Rightarrow> 'a" where
  "nested dec v k = (case lookup v k of Some x \<Rightarrow> nested_elem dec x | None \<Rightarrow> dec (JObj []))"

text \<open>
  Modelled from the spec: the shape \<open>ListOfScalar(kind)\<close> of section 4.3 at the kind
  text, for the missing json2typescript. Every element of a list is coerced on its own,
  an element that cannot be coerced becomes the empty text in its place; an absent key
  and a value that is no list give the empty list.
\<close>

definition text_elem :: "conversions \<Rightarrow> json \<Rightarrow> string" where
  "text_elem cv x = coerce_text cv (Some x) ''''"

definition list_of_text :: "conversions \<Rightarrow> json \<Rightarrow> string \<Rightarrow> string list" where
  "list_of_text cv v k =
     (case lookup v k of Some (JArr xs) \<Rightarrow> map (text_elem cv) xs | _ \<Rightarrow> [])"

text \<open>
  Modelled from the spec: the shape \<open>ListOfNested(T)\<close> of section 4.3, for the missing
  json2typescript: the same rule for the list, and every element decoded as a nested
  \<open>T\<close>.
\<close>

definition list_of_nested :: "(json \<Rightarrow> 'a) \<Rightarrow> json \<Rightarrow> string \<Rightarrow> 'a list" where
  "list_of_nested dec v k =
     (case lookup v k of Some (JArr xs) \<Rightarrow> map (nested_elem dec) xs | _ \<Rightarrow> [])"

text \<open>
  Modelled from the spec: \<open>decode(typeName, value)\<close> of section 4.3 at each class, for
  the missing json2typescript. The keys and shapes are those of the
  \<^verbatim>\<open>@JsonProperty\<close> declarations of the class.
\<close>

definition decode_Header :: "conversions \<Rightarrow> json \<Rightarrow> Header" where
  "decode_Header cv v =
     \<lparr>name = scalar_text cv v ''name'',
      value = scalar_text cv v ''value''\<rparr>"

definition decode_CommonHeaders :: "conversions \<Rightarrow> json \<Rightarrow> CommonHeaders" where
  "decode_CommonHeaders cv v =
     \<lparr>returnPath = scalar_text cv v ''returnPath'',
      from = list_of_text cv v ''from'',
      date = scalar_text cv v ''date'',
      to = list_of_text cv v ''to'',
      CommonHeaders.messageId = scalar_text cv v ''messageId'',
      subject = scalar_text cv v ''subject''\<rparr>"

definition decode_Mail :: "conversions \<Rightarrow> json \<Rightarrow> Mail" where
  "decode_Mail cv v =
     \<lparr>Mail.timestamp = scalar_text cv v ''timestamp'',
      source = scalar_text cv v ''source'',
      Mail.messageId = scalar_text cv v ''messageId'',
      destination = list_of_text cv v ''destination'',
      headersTruncated = scalar_boolean cv v ''headersTruncated'',
      headers = list_of_nested (decode_Header cv) v ''headers'',
      commonHeaders = nested (decode_CommonHeaders cv) v ''commonHeaders''\<rparr>"

definition decode_Action :: "conversions \<Rightarrow> json \<Rightarrow> Action" where
  "decode_Action cv v =
     \<lparr>type = scalar_text cv v ''type'',
      topicArn = scalar_text cv v ''topicArn''\<rparr>"

definition decode_Verdict :: "conversions \<Rightarrow> json \<Rightarrow> Verdict" where
  "decode_Verdict cv v = \<lparr>status = scalar_text cv v ''status''\<rparr>"

definition decode_Receipt :: "conversions \<Rightarrow> json \<Rightarrow> Receipt" where
  "decode_Receipt cv v =
     \<lparr>Receipt.timestamp = scalar_text cv v ''timestamp'',
      processingTimeMillis = scalar_number cv v ''processingTimeMillis'',
      recipients = list_of_text cv v ''recipients'',
      spamVerdict = nested (decode_Verdict cv) v ''spamVerdict'',
      virusVerdict = nested (decode_Verdict cv) v ''virusVerdict'',
      spfVerdict = nested (decode_Verdict cv) v ''spfVerdict'',
      dkimVerdict = nested (decode_Verdict cv) v ''dkimVerdict'',
      dmarcVerdict = nested (decode_Verdict cv) v ''dmarcVerdict'',
      dmarcPolicy = scalar_text cv v ''dmarcPolicy'',
      action = nested (decode_Action cv) v ''action''\<rparr>"

definition decode_Ses :: "conversions \<Rightarrow> json \<Rightarrow> Ses" where
  "decode_Ses cv v =
     \<lparr>receipt = nested (decode_Receipt cv) v ''receipt'',
      mail = nested (decode_Mail cv) v ''mail''\<rparr>"

definition decode_Record :: "conversions \<Rightarrow> json \<Rightarrow> Record" where
  "decode_Record cv v =
     \<lparr>eventVersion = scalar_text cv v ''eventVersion'',
      ses = nested (decode_Ses cv) v ''ses'',
      eventSource = scalar_text cv v ''eventSource''\<rparr>"

definition decode_Root :: "conversions \<Rightarrow> json \<Rightarrow> Root" where
  "decode_Root cv v = \<lparr>Records = list_of_nested (decode_Record cv) v ''Records''\<rparr>"

text \<open>
  Modelled from the spec: the decoder as the handler calls it, for the missing
  json2typescript. By section 4.3 decoding never fails.
\<close>

definition deserializeObject_Root :: "conversions \<Rightarrow> json \<Rightarrow> failure + Root" where
  "deserializeObject_Root cv body = Inr (decode_Root cv body)"

text \<open>
  What the specification counts as an input that a field absorbs into its default: for
  a scalar field a missing key, null, or a value of the wrong shape (a list or a
  mapping); for a nested field everything but a mapping; for a list field everything
  but a list.
\<close>

fun no_scalar :: "json option \<Rightarrow> bool" where
  "no_scalar None = True"
| "no_scalar (Some JNull) = True"
| "no_scalar (Some (JArr xs)) = True"
| "no_scalar (Some (JObj kvs)) = True"
| "no_scalar (Some (JBool b)) = False"
| "no_scalar (Some (JNum n)) = False"
| "no_scalar (Some (JStr s)) = False"

fun no_mapping :: "json option \<Rightarrow> bool" where
  "no_mapping (Some (JObj kvs)) = False"
| "no_mapping _ = True"

fun no_list :: "json option \<Rightarrow> bool" where
  "no_list (Some (JArr xs)) = False"
| "no_list _ = True"

text \<open>
  Modelled from the spec: the re-serialization of a decoded instance, field for field
  (section 8, round-trip stability), for the missing json2typescript: every field is
  written under its declared key, a text as a JSON string, a number as a JSON number, a
  boolean as a JSON boolean, a list as a JSON array, a nested object as a JSON object.
\<close>

definition serialize_Header :: "Header \<Rightarrow> json" where
  "serialize_Header h =
     JObj [(''name'', JStr (name h)), (''value'', JStr (value h))]"

definition serialize_CommonHeaders :: "CommonHeaders \<Rightarrow> json" where
  "serialize_CommonHeaders c =
     JObj [(''returnPath'', JStr (returnPath c)),
           (''from'', JArr (map JStr (from c))),
           (''date'', JStr (date c)),
           (''to'', JArr (map JStr (to c))),
           (''messageId'', JStr (CommonHeaders.messageId c)),
           (''subject'', JStr (subject c))]"

definition serialize_Mail :: "Mail \<Rightarrow> json" where
  "serialize_Mail m =
     JObj [(''timestamp'', JStr (Mail.timestamp m)),
           (''source'', JStr (source m)),
           (''messageId'', JStr (Mail.messageId m)),
           (''destination'', JArr (map JStr (destination m))),
           (''headersTruncated'', JBool (headersTruncated m)),
           (''headers'', JArr (map serialize_Header (headers m))),
           (''commonHeaders'', serialize_CommonHeaders (commonHeaders m))]"

definition serialize_Action :: "Action \<Rightarrow> json" where
  "serialize_Action a =
     JObj [(''type'', JStr (type a)), (''topicArn'', JStr (topicArn a))]"

definition serialize_Verdict :: "Verdict \<Rightarrow> json" where
  "serialize_Verdict x = JObj [(''status'', JStr (status x))]"

definition serialize_Receipt :: "Receipt \<Rightarrow> json" where
  "serialize_Receipt r =
     JObj [(''timestamp'', JStr (Receipt.timestamp r)),
           (''processingTimeMillis'', JNum (processingTimeMillis r)),
           (''recipients'', JArr (map JStr (recipients r))),
           (''spamVerdict'', serialize_Verdict (spamVerdict r)),
           (''virusVerdict'', serialize_Verdict (virusVerdict r)),
           (''spfVerdict'', serialize_Verdict (spfVerdict r)),
           (''dkimVerdict'', serialize_Verdict (dkimVerdict r)),
           (''dmarcVerdict'', serialize_Verdict (dmarcVerdict r)),
           (''dmarcPolicy'', JStr (dmarcPolicy r)),
           (''action'', serialize_Action (action r))]"

definition serialize_Ses :: "Ses \<Rightarrow> json" where
  "serialize_Ses s =
     JObj [(''receipt'', serialize_Receipt (receipt s)),
           (''mail'', serialize_Mail (mail s))]"

definition serialize_Record :: "Record \<Rightarrow> json" where
  "serialize_Record r =
     JObj [(''eventVersion'', JStr (eventVersion r)),
           (''ses'', serialize_Ses (ses r)),
           (''eventSource'', JStr (eventSource r))]"

definition serialize_Root :: "Root \<Rightarrow> json" where
  "serialize_Root rt = JObj [(''Records'', JArr (map serialize_Record (Records rt)))]"

section \<open>Example inputs\<close>

text \<open>
  A coercer that finds no conversion between scalar types unambiguous; it is used only
  to evaluate the decoder on the examples.
\<close>

definition no_conversions :: conversions where
  "no_conversions =
     \<lparr>to_text = (\<lambda>x. None), to_number = (\<lambda>x. None), to_boolean = (\<lambda>x. None)\<rparr>"

text \<open>
  One record as the mail service sends it: every check passed but the virus check,
  processed in 500 ms on the 15th of March 2024, one sender and two recipients.
\<close>

definition example_receipt :: Receipt where
  "example_receipt =
     \<lparr>Receipt.timestamp = ''2024-03-15T10:00:01Z'', processingTimeMillis = 500,
      recipients = [''bob@example.com''],
      spamVerdict = \<lparr>status = ''PASS''\<rparr>, virusVerdict = \<lparr>status = ''FAIL''\<rparr>,
      spfVerdict = \<lparr>status = ''PASS''\<rparr>, dkimVerdict = \<lparr>status = ''PASS''\<rparr>,
      dmarcVerdict = \<lparr>status = ''PASS''\<rparr>, dmarcPolicy = ''reject'',
      action = \<lparr>type = ''SNS'', topicArn = ''arn:aws:sns:topic''\<rparr>\<rparr>"

definition example_mail :: Mail where
  "example_mail =
     \<lparr>Mail.timestamp = ''2024-03-15T10:00:00Z'', source = ''alice@example.com'',
      Mail.messageId = ''m-1'',
      destination = [''bob@example.com'', ''carol@example.org''],
      headersTruncated = False, headers = [], commonHeaders = new_CommonHeaders\<rparr>"

definition example_record :: Record where
  "example_record =
     \<lparr>eventVersion = ''1.0'',
      ses = \<lparr>receipt = example_receipt, mail = example_mail\<rparr>,
      eventSource = ''aws:ses''\<rparr>"

text \<open>
  A receipt as JSON whose list of recipients holds a text, a null and a mapping, and a
  request body whose only record has this receipt and no \<^verbatim>\<open>mail\<close> key at all.
\<close>

definition mixed_receipt_json :: json where
  "mixed_receipt_json =
     JObj [(''processingTimeMillis'', JNum 1001),
           (''recipients'', JArr [JStr ''bob@example.com'', JNull, JObj []]),
           (''spfVerdict'', JObj [(''status'', JStr ''PASS'')])]"

definition body_without_mail :: json where
  "body_without_mail =
     JObj [(''Records'', JArr [JObj [(''eventVersion'', JStr ''1.0''),
        (''ses'', JObj [(''receipt'', mixed_receipt_json)])]])]"

text \<open>The root of the example, and a root with a second record behind the first.\<close>

definition example_root :: Root where
  "example_root = \<lparr>Records = [example_record]\<rparr>"

definition example_root_two :: Root where
  "example_root_two = \<lparr>Records = [example_record, new_Record]\<rparr>"

text \<open>A root whose only record is all default but for a timestamp that is no date.\<close>

definition bad_timestamp_root :: Root where
  "bad_timestamp_root =
     \<lparr>Records = [new_Record\<lparr>ses := new_Ses\<lparr>mail := new_Mail\<lparr>Mail.timestamp := ''not-a-date''\<rparr>\<rparr>\<rparr>]\<rparr>"

text \<open>The example with another processing time.\<close>

definition root_with_millis :: "real \<Rightarrow> Root" where
  "root_with_millis t =
     \<lparr>Records = [example_record
        \<lparr>ses := \<lparr>receipt = example_receipt\<lparr>processingTimeMillis := t\<rparr>,
                  mail = example_mail\<rparr>\<rparr>]\<rparr>"

section \<open>Properties of the handler\<close>

subsection \<open>Reading the first element and splitting\<close>

lemma index0_Nil: "index0 [] = None"
  by (simp add: index0_def)

lemma index0_Cons: "index0 (x # xs) = Some x"
  by (simp add: index0_def)

text \<open>
  The first piece of a split is the text before the first separator, and the whole text
  when there is no separator. In particular \<^verbatim>\<open>split(sep)[0]\<close> is never
  \<^verbatim>\<open>undefined\<close>.
\<close>

lemma index0_split: "index0 (split sep s) = Some (takeWhile (\<lambda>c. c \<noteq> sep) s)"
proof (cases "dropWhile (\<lambda>c. c \<noteq> sep) s")
  case Nil
  then have a: "split sep s = [s]"
    by (subst split.simps) (simp only: list.case)
  from Nil have b: "takeWhile (\<lambda>c. c \<noteq> sep) s = s"
    by (simp add: dropWhile_eq_Nil_conv)
  show ?thesis
    by (simp only: a b index0_def list.case)
next
  case (Cons x rest)
  then have "split sep s = takeWhile (\<lambda>c. c \<noteq> sep) s # split sep rest"
    by (subst split.simps) (simp only: list.case)
  then show ?thesis
    by (simp add: index0_def)
qed

lemma takeWhile_no_sep: "sep \<notin> set (takeWhile (\<lambda>c. c \<noteq> sep) s)"
  by (auto dest: set_takeWhileD)

subsection \<open>The two outcomes of lines 160 to 173\<close>

lemma summarize_Nil: "Records rt = [] \<Longrightarrow> summarize env rt = Inl TypeError"
  by (simp add: summarize_def index0_Nil)

lemma summarize_Cons:
  "Records rt = r # rs \<Longrightarrow>
   summarize env rt = Inr
     \<lparr>spam = (status (spamVerdict (receipt (ses r))) = ''PASS''),
      virus = (status (virusVerdict (receipt (ses r))) = ''PASS''),
      dns = (status (spfVerdict (receipt (ses r))) = ''PASS''
             \<and> status (dkimVerdict (receipt (ses r))) = ''PASS''
             \<and> status (dmarcVerdict (receipt (ses r))) = ''PASS''),
      mes = toLocaleString_month env (Mail.timestamp (mail (ses r))),
      retrasado = (processingTimeMillis (receipt (ses r)) > 1000),
      emisor = Some (takeWhile (\<lambda>c. c \<noteq> CHR ''@'') (source (mail (ses r)))),
      receptor = map (\<lambda>email. Some (takeWhile (\<lambda>c. c \<noteq> CHR ''@'') email))
                   (destination (mail (ses r)))\<rparr>"
  by (simp add: summarize_def index0_Cons index0_split Let_def)


lemma summarize_Inr: "summarize env rt = Inr d \<Longrightarrow> \<exists>r rs. Records rt = r # rs"
  by (cases "Records rt") (auto simp: summarize_Nil)

text \<open>The handler on a body is lines 160 to 173 on the root the decoder returns.\<close>

lemma handleEmail_decoded:
  "deserializeObject body = Inr rt \<Longrightarrow>
   handleEmail deserializeObject env body = summarize env rt"
  by (simp add: handleEmail_def)

lemma handleEmail_decoder_failed:
  "deserializeObject body = Inl e \<Longrightarrow> handleEmail deserializeObject env body = Inl e"
  by (simp add: handleEmail_def)

subsection \<open>The sample engine on the examples\<close>

lemma sample_parse_example: "Date_parse sample_env ''2024-03-15T10:00:00Z'' = Some 1710496800000"
  by code_simp

lemma sample_month_example: "toLocaleString_month sample_env ''2024-03-15T10:00:00Z'' = ''March''"
  by code_simp

lemma sample_parse_invalid: "Date_parse sample_env ''not-a-date'' = None"
  by code_simp

lemma sample_parse_empty: "Date_parse sample_env '''' = None"
  by code_simp

lemma Records_example_root: "Records example_root = example_record # []"
  by (simp add: example_root_def)

lemma Records_example_root_two: "Records example_root_two = example_record # [new_Record]"
  by (simp add: example_root_two_def)

text \<open>The summary of the example, as the handler computes it.\<close>

lemma summarize_example:
  "summarize sample_env example_root =
     Inr \<lparr>spam = True, virus = False, dns = True, mes = ''March'', retrasado = False,
          emisor = Some ''alice'', receptor = [Some ''bob'', Some ''carol'']\<rparr>"
  by (simp add: summarize_Cons [OF Records_example_root] sample_month_example
        example_record_def example_receipt_def example_mail_def)

section \<open>The claims about the handler\<close>




text \<open>
  Claim C2, as the specification states it: when \<open>mail.timestamp\<close> does not parse as a
  date, computing the summary fails with the failure kind \<open>InvalidTimestamp\<close>. The
  handler does not fail: \<^verbatim>\<open>toLocaleString\<close> prints an invalid date as the text
  \<^verbatim>\<open>Invalid Date\<close>, and the summary is returned with that text as its month.
\<close>

theorem C2_counterexample:
  "Date_parse sample_env ''not-a-date'' = None
   \<and> summarize sample_env bad_timestamp_root =
       Inr \<lparr>spam = False, virus = False, dns = False, mes = ''Invalid Date'',
            retrasado = False, emisor = Some '''', receptor = []\<rparr>
   \<and> summarize sample_env bad_timestamp_root \<noteq> Inl InvalidTimestamp"
  by (simp add: bad_timestamp_root_def summarize_Cons toLocaleString_month_def
        sample_parse_invalid new_Record_def new_Ses_def new_Mail_def new_Receipt_def
        new_Verdict_def)

text \<open>
  Claim C2, amended: for every decoded root with a first record whose
  \<open>mail.timestamp\<close> does not parse as a date, the handler still returns a summary, and
  the month of that summary is the text \<^verbatim>\<open>Invalid Date\<close>.
\<close>

theorem C2_invalid_timestamp_month:
  assumes "Records rt = r # rs"
    and "Date_parse env (Mail.timestamp (mail (ses r))) = None"
  shows "\<exists>d. summarize env rt = Inr d \<and> mes d = ''Invalid Date''"
  using assms by (simp add: summarize_Cons toLocaleString_month_def)

theorem C2_invalid_timestamp_month_witness:
  "Records bad_timestamp_root =
     new_Record\<lparr>ses := new_Ses\<lparr>mail := new_Mail\<lparr>Mail.timestamp := ''not-a-date''\<rparr>\<rparr>\<rparr> # []
   \<and> Date_parse sample_env ''not-a-date'' = None
   \<and> (\<exists>d. summarize sample_env bad_timestamp_root = Inr d \<and> mes d = ''Invalid Date'')"
proof -
  have a: "Records bad_timestamp_root =
     new_Record\<lparr>ses := new_Ses\<lparr>mail := new_Mail\<lparr>Mail.timestamp := ''not-a-date''\<rparr>\<rparr>\<rparr> # []"
    by (simp add: bad_timestamp_root_def)
  have b: "Date_parse sample_env (Mail.timestamp (mail (ses
      (new_Record\<lparr>ses := new_Ses\<lparr>mail := new_Mail\<lparr>Mail.timestamp := ''not-a-date''\<rparr>\<rparr>\<rparr>)))) = None"
    by (simp add: sample_parse_invalid)
  show ?thesis
    using a sample_parse_invalid C2_invalid_timestamp_month [OF a b] by simp
qed

text \<open>
  Claim C5: the \<open>dns\<close> flag of the summary is true if and only if the statuses of the
  SPF, DKIM and DMARC verdicts of the first record are all the text \<^verbatim>\<open>PASS\<close>; it is
  false in particular when one of the three verdicts is the all-default verdict that
  stands for an absent one, whose status is the empty text.
\<close>

theorem C5_dns_iff_all_PASS:
  assumes "Records rt = r # rs"
  shows "\<exists>d. summarize env rt = Inr d
     \<and> (dns d \<longleftrightarrow>
          status (spfVerdict (receipt (ses r))) = ''PASS''
          \<and> status (dkimVerdict (receipt (ses r))) = ''PASS''
          \<and> status (dmarcVerdict (receipt (ses r))) = ''PASS'')
     \<and> (spfVerdict (receipt (ses r)) = new_Verdict
          \<or> dkimVerdict (receipt (ses r)) = new_Verdict
          \<or> dmarcVerdict (receipt (ses r)) = new_Verdict \<longrightarrow> \<not> dns d)"
  using assms by (auto simp: summarize_Cons new_Verdict_def)

theorem C5_dns_iff_all_PASS_witness:
  "Records example_root = example_record # []
   \<and> (\<exists>d. summarize sample_env example_root = Inr d \<and> dns d)
   \<and> Records \<lparr>Records = [new_Record]\<rparr> = new_Record # []
   \<and> (\<exists>d. summarize sample_env \<lparr>Records = [new_Record]\<rparr> = Inr d \<and> \<not> dns d)"
proof -
  have a: "Records \<lparr>Records = [new_Record]\<rparr> = new_Record # []"
    by simp
  show ?thesis
    using C5_dns_iff_all_PASS [OF Records_example_root, of sample_env]
      C5_dns_iff_all_PASS [OF a, of sample_env]
    by (auto simp: example_root_def example_record_def example_receipt_def
          new_Record_def new_Ses_def new_Receipt_def)
qed

text \<open>
  Claim C6: the \<open>delayed\<close> flag of the summary (\<open>retrasado\<close>) is true if and only if
  \<open>processingTimeMillis\<close> of the first record is strictly greater than \<open>1000\<close>; it is
  false at exactly \<open>1000\<close> and true at \<open>1001\<close>.
\<close>

theorem C6_delayed_iff_over_1000:
  assumes "Records rt = r # rs"
  shows "\<exists>d. summarize env rt = Inr d
     \<and> (retrasado d \<longleftrightarrow> processingTimeMillis (receipt (ses r)) > 1000)
     \<and> (processingTimeMillis (receipt (ses r)) = 1000 \<longrightarrow> \<not> retrasado d)
     \<and> (processingTimeMillis (receipt (ses r)) = 1001 \<longrightarrow> retrasado d)"
  using assms by (auto simp: summarize_Cons)

theorem C6_delayed_iff_over_1000_witness:
  "(\<exists>d. summarize sample_env (root_with_millis 1000) = Inr d \<and> \<not> retrasado d)
   \<and> (\<exists>d. summarize sample_env (root_with_millis 1001) = Inr d \<and> retrasado d)"
proof -
  have a: "Records (root_with_millis t) =
      example_record\<lparr>ses := \<lparr>receipt = example_receipt\<lparr>processingTimeMillis := t\<rparr>,
                               mail = example_mail\<rparr>\<rparr> # []" for t
    by (simp add: root_with_millis_def)
  show ?thesis
    using C6_delayed_iff_over_1000 [OF a, of sample_env 1000]
      C6_delayed_iff_over_1000 [OF a, of sample_env 1001]
    by auto
qed

text \<open>
  Claim C7: the sender of the summary (\<open>emisor\<close>) is the part of \<open>mail.source\<close> before
  its first \<^verbatim>\<open>@\<close>, the whole text when it holds no \<^verbatim>\<open>@\<close>; the recipients of the
  summary (\<open>receptor\<close>) are the elements of \<open>mail.destination\<close> cut in the same way, as many
  as there are addresses and in their order.
\<close>

theorem C7_sender_and_recipients_local_part:
  assumes "Records rt = r # rs"
  shows "\<exists>d. summarize env rt = Inr d
     \<and> emisor d = Some (takeWhile (\<lambda>c. c \<noteq> CHR ''@'') (source (mail (ses r))))
     \<and> (CHR ''@'' \<notin> set (source (mail (ses r))) \<longrightarrow> emisor d = Some (source (mail (ses r))))
     \<and> length (receptor d) = length (destination (mail (ses r)))
     \<and> (\<forall>i < length (destination (mail (ses r))).
           receptor d ! i =
             Some (takeWhile (\<lambda>c. c \<noteq> CHR ''@'') (destination (mail (ses r)) ! i)))"
proof -
  let ?d = "\<lparr>spam = (status (spamVerdict (receipt (ses r))) = ''PASS''),
      virus = (status (virusVerdict (receipt (ses r))) = ''PASS''),
      dns = (status (spfVerdict (receipt (ses r))) = ''PASS''
             \<and> status (dkimVerdict (receipt (ses r))) = ''PASS''
             \<and> status (dmarcVerdict (receipt (ses r))) = ''PASS''),
      mes = toLocaleString_month env (Mail.timestamp (mail (ses r))),
      retrasado = (processingTimeMillis (receipt (ses r)) > 1000),
      emisor = Some (takeWhile (\<lambda>c. c \<noteq> CHR ''@'') (source (mail (ses r)))),
      receptor = map (\<lambda>email. Some (takeWhile (\<lambda>c. c \<noteq> CHR ''@'') email))
                   (destination (mail (ses r)))\<rparr>"
  have "summarize env rt = Inr ?d"
    using assms by (rule summarize_Cons)
  moreover have "CHR ''@'' \<notin> set (source (mail (ses r))) \<longrightarrow>
      emisor ?d = Some (source (mail (ses r)))"
    by (auto simp: takeWhile_eq_all_conv)
  ultimately show ?thesis
    by (intro exI [of _ ?d]) simp
qed

theorem C7_sender_and_recipients_local_part_witness:
  "Records example_root = example_record # []
   \<and> (\<exists>d. summarize sample_env example_root = Inr d
         \<and> emisor d = Some ''alice''
         \<and> length (receptor d) = 2
         \<and> receptor d ! 0 = Some ''bob''
         \<and> receptor d ! 1 = Some ''carol'')"
  using C7_sender_and_recipients_local_part [OF Records_example_root, of sample_env]
  by (auto simp: example_root_def example_record_def example_mail_def)

text \<open>
  Claim C8: two decoded roots whose \<open>Records\<close> lists are not empty and have the same
  first element get the same summary, whatever follows the first record; so do two
  request bodies that decode to such roots.
\<close>

theorem C8_only_first_record_read:
  assumes "Records rt1 = r # rs1"
    and "Records rt2 = r # rs2"
  shows "summarize env rt1 = summarize env rt2
     \<and> (\<forall>deserializeObject b1 b2.
           deserializeObject b1 = Inr rt1 \<and> deserializeObject b2 = Inr rt2 \<longrightarrow>
           handleEmail deserializeObject env b1 = handleEmail deserializeObject env b2)"
  using assms by (simp add: summarize_Cons handleEmail_def)

theorem C8_only_first_record_read_witness:
  "Records example_root = example_record # []
   \<and> Records example_root_two = example_record # [new_Record]
   \<and> example_root \<noteq> example_root_two
   \<and> summarize sample_env example_root = summarize sample_env example_root_two"
  using C8_only_first_record_read
    [OF Records_example_root Records_example_root_two, of sample_env]
  by (simp add: example_root_def example_root_two_def)

text \<open>
  Claim C10: whenever the handler returns a summary, its sender is a text without
  \<^verbatim>\<open>@\<close>, and every element of its recipients is a text without \<^verbatim>\<open>@\<close>.
\<close>

theorem C10_no_at_sign_in_summary:
  assumes "summarize env rt = Inr d"
  shows "(\<exists>e. emisor d = Some e \<and> CHR ''@'' \<notin> set e)
     \<and> (\<forall>x \<in> set (receptor d). \<exists>e. x = Some e \<and> CHR ''@'' \<notin> set e)"
proof -
  from assms obtain r rs where "Records rt = r # rs"
    using summarize_Inr by blast
  from summarize_Cons [OF this, of env] assms
  have e: "emisor d = Some (takeWhile (\<lambda>c. c \<noteq> CHR ''@'') (source (mail (ses r))))"
    and x: "receptor d = map (\<lambda>email. Some (takeWhile (\<lambda>c. c \<noteq> CHR ''@'') email))
                   (destination (mail (ses r)))"
    by auto
  show ?thesis
    unfolding e x using takeWhile_no_sep [of "CHR ''@''"] by auto
qed

theorem C10_no_at_sign_in_summary_witness:
  "summarize sample_env example_root =
     Inr \<lparr>spam = True, virus = False, dns = True, mes = ''March'', retrasado = False,
          emisor = Some ''alice'', receptor = [Some ''bob'', Some ''carol'']\<rparr>
   \<and> CHR ''@'' \<notin> set ''alice'' \<and> CHR ''@'' \<notin> set ''bob'' \<and> CHR ''@'' \<notin> set ''carol''"
  using C10_no_at_sign_in_summary [OF summarize_example] summarize_example
  by simp

section \<open>Properties of the decoder of the specification\<close>

subsection \<open>The shapes\<close>

lemma lookup_empty: "lookup (JObj []) k = None"
  by (simp add: lookup_def)

lemma scalar_text_default: "no_scalar (lookup v k) \<Longrightarrow> scalar_text cv v k = ''''"
  by (cases "lookup v k" rule: no_scalar.cases) (simp_all add: scalar_text_def)

lemma scalar_number_default: "no_scalar (lookup v k) \<Longrightarrow> scalar_number cv v k = 0"
  by (cases "lookup v k" rule: no_scalar.cases) (simp_all add: scalar_number_def)

lemma scalar_boolean_default: "no_scalar (lookup v k) \<Longrightarrow> scalar_boolean cv v k = False"
  by (cases "lookup v k" rule: no_scalar.cases) (simp_all add: scalar_boolean_def)

lemma nested_elem_default: "no_mapping (Some x) \<Longrightarrow> nested_elem dec x = dec (JObj [])"
  by (cases x) (simp_all add: nested_elem_def)

lemma nested_elem_mapping: "nested_elem dec (JObj kvs) = dec (JObj kvs)"
  by (simp add: nested_elem_def)

lemma nested_default: "no_mapping (lookup v k) \<Longrightarrow> nested dec v k = dec (JObj [])"
  by (cases "lookup v k") (simp_all add: nested_def nested_elem_default)

lemma nested_mapping: "lookup v k = Some (JObj kvs) \<Longrightarrow> nested dec v k = dec (JObj kvs)"
  by (simp add: nested_def nested_elem_def)

lemma text_elem_default: "no_scalar (Some x) \<Longrightarrow> text_elem cv x = ''''"
  by (cases x) (simp_all add: text_elem_def)

lemma text_elem_text: "text_elem cv (JStr s) = s"
  by (simp add: text_elem_def)

lemma text_elem_unconverted:
  "(\<forall>s. x \<noteq> JStr s) \<and> to_text cv x = None \<Longrightarrow> text_elem cv x = ''''"
  by (cases x) (simp_all add: text_elem_def)

lemma list_of_text_default: "no_list (lookup v k) \<Longrightarrow> list_of_text cv v k = []"
  by (cases "lookup v k" rule: no_list.cases) (simp_all add: list_of_text_def)

lemma list_of_text_list:
  "lookup v k = Some (JArr xs) \<Longrightarrow> list_of_text cv v k = map (text_elem cv) xs"
  by (simp add: list_of_text_def)

lemma list_of_nested_default: "no_list (lookup v k) \<Longrightarrow> list_of_nested dec v k = []"
  by (cases "lookup v k" rule: no_list.cases) (simp_all add: list_of_nested_def)

lemma list_of_nested_list:
  "lookup v k = Some (JArr xs) \<Longrightarrow> list_of_nested dec v k = map (nested_elem dec) xs"
  by (simp add: list_of_nested_def)

subsection \<open>The empty mapping decodes to the all-default instance\<close>

lemma decode_Header_empty: "decode_Header cv (JObj []) = new_Header"
  by (simp add: decode_Header_def new_Header_def scalar_text_default lookup_empty)

lemma decode_CommonHeaders_empty: "decode_CommonHeaders cv (JObj []) = new_CommonHeaders"
  by (simp add: decode_CommonHeaders_def new_CommonHeaders_def scalar_text_default
        list_of_text_default lookup_empty)

lemma decode_Mail_empty: "decode_Mail cv (JObj []) = new_Mail"
  by (simp add: decode_Mail_def new_Mail_def scalar_text_default scalar_boolean_default
        list_of_text_default list_of_nested_default nested_default lookup_empty
        decode_CommonHeaders_empty)

lemma decode_Action_empty: "decode_Action cv (JObj []) = new_Action"
  by (simp add: decode_Action_def new_Action_def scalar_text_default lookup_empty)

lemma decode_Verdict_empty: "decode_Verdict cv (JObj []) = new_Verdict"
  by (simp add: decode_Verdict_def new_Verdict_def scalar_text_default lookup_empty)

lemma decode_Receipt_empty: "decode_Receipt cv (JObj []) = new_Receipt"
  by (simp add: decode_Receipt_def new_Receipt_def scalar_text_default
        scalar_number_default list_of_text_default nested_default lookup_empty
        decode_Verdict_empty decode_Action_empty)

lemma decode_Ses_empty: "decode_Ses cv (JObj []) = new_Ses"
  by (simp add: decode_Ses_def new_Ses_def nested_default lookup_empty
        decode_Receipt_empty decode_Mail_empty)

lemma decode_Record_empty: "decode_Record cv (JObj []) = new_Record"
  by (simp add: decode_Record_def new_Record_def scalar_text_default nested_default
        lookup_empty decode_Ses_empty)

subsection \<open>Decoding a serialized instance\<close>

lemma map_text_elem_JStr: "map (text_elem cv \<circ> JStr) xs = xs"
  by (induction xs) (simp_all add: text_elem_text)

lemma decode_serialize_Header: "decode_Header cv (serialize_Header h) = h"
  by (simp add: decode_Header_def serialize_Header_def scalar_text_def lookup_def)

lemma nested_elem_Header: "nested_elem (decode_Header cv) (serialize_Header h) = h"
proof -
  have "nested_elem (decode_Header cv) (serialize_Header h)
      = decode_Header cv (serialize_Header h)"
    by (simp add: serialize_Header_def nested_elem_mapping)
  then show ?thesis
    by (simp add: decode_serialize_Header)
qed

lemma map_nested_elem_Header:
  "map (nested_elem (decode_Header cv) \<circ> serialize_Header) hs = hs"
  by (induction hs) (simp_all add: nested_elem_Header)

lemma decode_serialize_CommonHeaders:
  "decode_CommonHeaders cv (serialize_CommonHeaders c) = c"
  by (simp add: decode_CommonHeaders_def serialize_CommonHeaders_def scalar_text_def
        list_of_text_def lookup_def map_text_elem_JStr)

lemma nested_elem_CommonHeaders:
  "nested_elem (decode_CommonHeaders cv) (serialize_CommonHeaders c) = c"
proof -
  have "nested_elem (decode_CommonHeaders cv) (serialize_CommonHeaders c)
      = decode_CommonHeaders cv (serialize_CommonHeaders c)"
    by (simp add: serialize_CommonHeaders_def nested_elem_mapping)
  then show ?thesis
    by (simp add: decode_serialize_CommonHeaders)
qed

lemma decode_serialize_Mail: "decode_Mail cv (serialize_Mail m) = m"
  by (simp add: decode_Mail_def serialize_Mail_def scalar_text_def scalar_boolean_def
        list_of_text_def list_of_nested_def nested_def lookup_def map_text_elem_JStr
        map_nested_elem_Header nested_elem_CommonHeaders)

lemma nested_elem_Mail: "nested_elem (decode_Mail cv) (serialize_Mail m) = m"
proof -
  have "nested_elem (decode_Mail cv) (serialize_Mail m) = decode_Mail cv (serialize_Mail m)"
    by (simp add: serialize_Mail_def nested_elem_mapping)
  then show ?thesis
    by (simp add: decode_serialize_Mail)
qed

lemma decode_serialize_Action: "decode_Action cv (serialize_Action a) = a"
  by (simp add: decode_Action_def serialize_Action_def scalar_text_def lookup_def)

lemma nested_elem_Action: "nested_elem (decode_Action cv) (serialize_Action a) = a"
proof -
  have "nested_elem (decode_Action cv) (serialize_Action a)
      = decode_Action cv (serialize_Action a)"
    by (simp add: serialize_Action_def nested_elem_mapping)
  then show ?thesis
    by (simp add: decode_serialize_Action)
qed

lemma decode_serialize_Verdict: "decode_Verdict cv (serialize_Verdict x) = x"
  by (simp add: decode_Verdict_def serialize_Verdict_def scalar_text_def lookup_def)

lemma nested_elem_Verdict: "nested_elem (decode_Verdict cv) (serialize_Verdict x) = x"
proof -
  have "nested_elem (decode_Verdict cv) (serialize_Verdict x)
      = decode_Verdict cv (serialize_Verdict x)"
    by (simp add: serialize_Verdict_def nested_elem_mapping)
  then show ?thesis
    by (simp add: decode_serialize_Verdict)
qed

lemma decode_serialize_Receipt: "decode_Receipt cv (serialize_Receipt r) = r"
  by (simp add: decode_Receipt_def serialize_Receipt_def scalar_text_def scalar_number_def
        list_of_text_def nested_def lookup_def map_text_elem_JStr nested_elem_Verdict
        nested_elem_Action)

lemma nested_elem_Receipt: "nested_elem (decode_Receipt cv) (serialize_Receipt r) = r"
proof -
  have "nested_elem (decode_Receipt cv) (serialize_Receipt r)
      = decode_Receipt cv (serialize_Receipt r)"
    by (simp add: serialize_Receipt_def nested_elem_mapping)
  then show ?thesis
    by (simp add: decode_serialize_Receipt)
qed

lemma decode_serialize_Ses: "decode_Ses cv (serialize_Ses s) = s"
  by (simp add: decode_Ses_def serialize_Ses_def nested_def lookup_def nested_elem_Receipt
        nested_elem_Mail)

lemma nested_elem_Ses: "nested_elem (decode_Ses cv) (serialize_Ses s) = s"
proof -
  have "nested_elem (decode_Ses cv) (serialize_Ses s) = decode_Ses cv (serialize_Ses s)"
    by (simp add: serialize_Ses_def nested_elem_mapping)
  then show ?thesis
    by (simp add: decode_serialize_Ses)
qed

lemma decode_serialize_Record: "decode_Record cv (serialize_Record r) = r"
  by (simp add: decode_Record_def serialize_Record_def scalar_text_def nested_def lookup_def
        nested_elem_Ses)

lemma nested_elem_Record: "nested_elem (decode_Record cv) (serialize_Record r) = r"
proof -
  have "nested_elem (decode_Record cv) (serialize_Record r)
      = decode_Record cv (serialize_Record r)"
    by (simp add: serialize_Record_def nested_elem_mapping)
  then show ?thesis
    by (simp add: decode_serialize_Record)
qed

lemma map_nested_elem_Record:
  "map (nested_elem (decode_Record cv) \<circ> serialize_Record) rs = rs"
  by (induction rs) (simp_all add: nested_elem_Record)

lemma decode_serialize_Root: "decode_Root cv (serialize_Root rt) = rt"
  by (simp add: decode_Root_def serialize_Root_def list_of_nested_def lookup_def
        map_nested_elem_Record)

subsection \<open>The decoder on the example body\<close>

lemma lookup_mixed_recipients:
  "lookup mixed_receipt_json ''recipients'' = Some (JArr [JStr ''bob@example.com'', JNull, JObj []])"
  by (simp add: mixed_receipt_json_def lookup_def)

lemma lookup_ses_without_mail: "lookup (JObj [(''receipt'', mixed_receipt_json)]) ''mail'' = None"
  by (simp add: lookup_def)

lemma decode_Ses_without_mail:
  "decode_Ses cv (JObj [(''receipt'', mixed_receipt_json)]) =
     \<lparr>receipt = decode_Receipt cv mixed_receipt_json, mail = new_Mail\<rparr>"
  by (simp add: decode_Ses_def nested_def nested_elem_def lookup_def mixed_receipt_json_def
        decode_Mail_empty)

lemma decode_body_without_mail:
  "Records (decode_Root cv body_without_mail) =
     \<lparr>eventVersion = ''1.0'',
      ses = \<lparr>receipt = decode_Receipt cv mixed_receipt_json, mail = new_Mail\<rparr>,
      eventSource = ''''\<rparr> # []"
proof -
  have "decode_Record cv (JObj [(''eventVersion'', JStr ''1.0''),
          (''ses'', JObj [(''receipt'', mixed_receipt_json)])]) =
     \<lparr>eventVersion = ''1.0'',
      ses = decode_Ses cv (JObj [(''receipt'', mixed_receipt_json)]),
      eventSource = ''''\<rparr>"
    by (simp add: decode_Record_def scalar_text_def nested_def nested_elem_def lookup_def)
  then show ?thesis
    by (simp add: decode_Root_def body_without_mail_def list_of_nested_def nested_elem_def
          lookup_def decode_Ses_without_mail)
qed

text \<open>
  The example end to end: the serialized example root is decoded to the example root, and
  the handler returns the summary of the example.
\<close>

lemma handleEmail_example:
  "handleEmail (deserializeObject_Root cv) sample_env (serialize_Root example_root) =
     Inr \<lparr>spam = True, virus = False, dns = True, mes = ''March'', retrasado = False,
          emisor = Some ''alice'', receptor = [Some ''bob'', Some ''carol'']\<rparr>"
  by (simp add: handleEmail_def deserializeObject_Root_def decode_serialize_Root
        summarize_example)

section \<open>The claims about the decoder\<close>

text \<open>
  Claim C9: decoding is stable under a round trip. Serializing a decoded instance field
  for field and decoding the result gives the decoded instance again; this holds for
  every input, and every instance is what its own serialization decodes to.
\<close>

theorem C9_decode_round_trip:
  "decode_Root cv (serialize_Root (decode_Root cv v)) = decode_Root cv v
   \<and> decode_Root cv (serialize_Root rt) = rt"
  by (simp add: decode_serialize_Root)

text \<open>
  Claim C3: inside a record, decoding never fails, and every declared field whose key is
  missing, whose value is null, or whose value has the wrong shape gets its default:
  the empty text, \<open>0\<close>, \<open>false\<close>, the empty list, or the all-default instance of the
  nested class. The fields are listed class by class: \<open>Record\<close>, \<open>Ses\<close>, \<open>Receipt\<close>,
  \<open>Verdict\<close>, \<open>Action\<close>, \<open>Mail\<close>, \<open>CommonHeaders\<close>, \<open>Header\<close>. In particular an absent
  \<open>mail\<close> decodes to the all-default \<open>Mail\<close>, and the summary of a body whose first record
  has the all-default \<open>Mail\<close> has the sender \<open>''''\<close> and no recipients.
\<close>

theorem C3_absent_fields_get_defaults:
  "(\<exists>rt. deserializeObject_Root cv body = Inr rt)
   \<and> ((no_scalar (lookup v ''eventVersion'') \<longrightarrow> eventVersion (decode_Record cv v) = '''')
      \<and> (no_mapping (lookup v ''ses'') \<longrightarrow> ses (decode_Record cv v) = new_Ses)
      \<and> (no_scalar (lookup v ''eventSource'') \<longrightarrow> eventSource (decode_Record cv v) = ''''))
   \<and> ((no_mapping (lookup v ''receipt'') \<longrightarrow> receipt (decode_Ses cv v) = new_Receipt)
      \<and> (no_mapping (lookup v ''mail'') \<longrightarrow> mail (decode_Ses cv v) = new_Mail))
   \<and> ((no_scalar (lookup v ''timestamp'') \<longrightarrow> Receipt.timestamp (decode_Receipt cv v) = '''')
      \<and> (no_scalar (lookup v ''processingTimeMillis'') \<longrightarrow>
            processingTimeMillis (decode_Receipt cv v) = 0)
      \<and> (no_list (lookup v ''recipients'') \<longrightarrow> recipients (decode_Receipt cv v) = [])
      \<and> (no_mapping (lookup v ''spamVerdict'') \<longrightarrow>
            spamVerdict (decode_Receipt cv v) = new_Verdict)
      \<and> (no_mapping (lookup v ''virusVerdict'') \<longrightarrow>
            virusVerdict (decode_Receipt cv v) = new_Verdict)
      \<and> (no_mapping (lookup v ''spfVerdict'') \<longrightarrow>
            spfVerdict (decode_Receipt cv v) = new_Verdict)
      \<and> (no_mapping (lookup v ''dkimVerdict'') \<longrightarrow>
            dkimVerdict (decode_Receipt cv v) = new_Verdict)
      \<and> (no_mapping (lookup v ''dmarcVerdict'') \<longrightarrow>
            dmarcVerdict (decode_Receipt cv v) = new_Verdict)
      \<and> (no_scalar (lookup v ''dmarcPolicy'') \<longrightarrow> dmarcPolicy (decode_Receipt cv v) = '''')
      \<and> (no_mapping (lookup v ''action'') \<longrightarrow> action (decode_Receipt cv v) = new_Action))
   \<and> (no_scalar (lookup v ''status'') \<longrightarrow> status (decode_Verdict cv v) = '''')
   \<and> ((no_scalar (lookup v ''type'') \<longrightarrow> type (decode_Action cv v) = '''')
      \<and> (no_scalar (lookup v ''topicArn'') \<longrightarrow> topicArn (decode_Action cv v) = ''''))
   \<and> ((no_scalar (lookup v ''timestamp'') \<longrightarrow> Mail.timestamp (decode_Mail cv v) = '''')
      \<and> (no_scalar (lookup v ''source'') \<longrightarrow> source (decode_Mail cv v) = '''')
      \<and> (no_scalar (lookup v ''messageId'') \<longrightarrow> Mail.messageId (decode_Mail cv v) = '''')
      \<and> (no_list (lookup v ''destination'') \<longrightarrow> destination (decode_Mail cv v) = [])
      \<and> (no_scalar (lookup v ''headersTruncated'') \<longrightarrow>
            headersTruncated (decode_Mail cv v) = False)
      \<and> (no_list (lookup v ''headers'') \<longrightarrow> headers (decode_Mail cv v) = [])
      \<and> (no_mapping (lookup v ''commonHeaders'') \<longrightarrow>
            commonHeaders (decode_Mail cv v) = new_CommonHeaders))
   \<and> ((no_scalar (lookup v ''returnPath'') \<longrightarrow> returnPath (decode_CommonHeaders cv v) = '''')
      \<and> (no_list (lookup v ''from'') \<longrightarrow> from (decode_CommonHeaders cv v) = [])
      \<and> (no_scalar (lookup v ''date'') \<longrightarrow> date (decode_CommonHeaders cv v) = '''')
      \<and> (no_list (lookup v ''to'') \<longrightarrow> to (decode_CommonHeaders cv v) = [])
      \<and> (no_scalar (lookup v ''messageId'') \<longrightarrow>
            CommonHeaders.messageId (decode_CommonHeaders cv v) = '''')
      \<and> (no_scalar (lookup v ''subject'') \<longrightarrow> subject (decode_CommonHeaders cv v) = ''''))
   \<and> ((no_scalar (lookup v ''name'') \<longrightarrow> name (decode_Header cv v) = '''')
      \<and> (no_scalar (lookup v ''value'') \<longrightarrow> value (decode_Header cv v) = ''''))
   \<and> (\<forall>r rs. Records (decode_Root cv body) = r # rs \<and> mail (ses r) = new_Mail \<longrightarrow>
         (\<exists>d. handleEmail (deserializeObject_Root cv) env body = Inr d
              \<and> emisor d = Some '''' \<and> receptor d = []))"
proof -
  have Record_fields:
    "(no_scalar (lookup v ''eventVersion'') \<longrightarrow> eventVersion (decode_Record cv v) = '''')
      \<and> (no_mapping (lookup v ''ses'') \<longrightarrow> ses (decode_Record cv v) = new_Ses)
      \<and> (no_scalar (lookup v ''eventSource'') \<longrightarrow> eventSource (decode_Record cv v) = '''')"
    by (simp add: decode_Record_def scalar_text_default nested_default decode_Ses_empty)
  have Ses_fields:
    "(no_mapping (lookup v ''receipt'') \<longrightarrow> receipt (decode_Ses cv v) = new_Receipt)
      \<and> (no_mapping (lookup v ''mail'') \<longrightarrow> mail (decode_Ses cv v) = new_Mail)"
    by (simp add: decode_Ses_def nested_default decode_Receipt_empty decode_Mail_empty)
  have Receipt_fields:
    "(no_scalar (lookup v ''timestamp'') \<longrightarrow> Receipt.timestamp (decode_Receipt cv v) = '''')
      \<and> (no_scalar (lookup v ''processingTimeMillis'') \<longrightarrow>
            processingTimeMillis (decode_Receipt cv v) = 0)
      \<and> (no_list (lookup v ''recipients'') \<longrightarrow> recipients (decode_Receipt cv v) = [])
      \<and> (no_mapping (lookup v ''spamVerdict'') \<longrightarrow>
            spamVerdict (decode_Receipt cv v) = new_Verdict)
      \<and> (no_mapping (lookup v ''virusVerdict'') \<longrightarrow>
            virusVerdict (decode_Receipt cv v) = new_Verdict)
      \<and> (no_mapping (lookup v ''spfVerdict'') \<longrightarrow>
            spfVerdict (decode_Receipt cv v) = new_Verdict)
      \<and> (no_mapping (lookup v ''dkimVerdict'') \<longrightarrow>
            dkimVerdict (decode_Receipt cv v) = new_Verdict)
      \<and> (no_mapping (lookup v ''dmarcVerdict'') \<longrightarrow>
            dmarcVerdict (decode_Receipt cv v) = new_Verdict)
      \<and> (no_scalar (lookup v ''dmarcPolicy'') \<longrightarrow> dmarcPolicy (decode_Receipt cv v) = '''')
      \<and> (no_mapping (lookup v ''action'') \<longrightarrow> action (decode_Receipt cv v) = new_Action)"
    by (simp add: decode_Receipt_def scalar_text_default scalar_number_default
          list_of_text_default nested_default decode_Verdict_empty decode_Action_empty)
  have Verdict_fields:
    "no_scalar (lookup v ''status'') \<longrightarrow> status (decode_Verdict cv v) = ''''"
    by (simp add: decode_Verdict_def scalar_text_default)
  have Action_fields:
    "(no_scalar (lookup v ''type'') \<longrightarrow> type (decode_Action cv v) = '''')
      \<and> (no_scalar (lookup v ''topicArn'') \<longrightarrow> topicArn (decode_Action cv v) = '''')"
    by (simp add: decode_Action_def scalar_text_default)
  have Mail_fields:
    "(no_scalar (lookup v ''timestamp'') \<longrightarrow> Mail.timestamp (decode_Mail cv v) = '''')
      \<and> (no_scalar (lookup v ''source'') \<longrightarrow> source (decode_Mail cv v) = '''')
      \<and> (no_scalar (lookup v ''messageId'') \<longrightarrow> Mail.messageId (decode_Mail cv v) = '''')
      \<and> (no_list (lookup v ''destination'') \<longrightarrow> destination (decode_Mail cv v) = [])
      \<and> (no_scalar (lookup v ''headersTruncated'') \<longrightarrow>
            headersTruncated (decode_Mail cv v) = False)
      \<and> (no_list (lookup v ''headers'') \<longrightarrow> headers (decode_Mail cv v) = [])
      \<and> (no_mapping (lookup v ''commonHeaders'') \<longrightarrow>
            commonHeaders (decode_Mail cv v) = new_CommonHeaders)"
    by (simp add: decode_Mail_def scalar_text_default scalar_boolean_default
          list_of_text_default list_of_nested_default nested_default
          decode_CommonHeaders_empty)
  have CommonHeaders_fields:
    "(no_scalar (lookup v ''returnPath'') \<longrightarrow> returnPath (decode_CommonHeaders cv v) = '''')
      \<and> (no_list (lookup v ''from'') \<longrightarrow> from (decode_CommonHeaders cv v) = [])
      \<and> (no_scalar (lookup v ''date'') \<longrightarrow> date (decode_CommonHeaders cv v) = '''')
      \<and> (no_list (lookup v ''to'') \<longrightarrow> to (decode_CommonHeaders cv v) = [])
      \<and> (no_scalar (lookup v ''messageId'') \<longrightarrow>
            CommonHeaders.messageId (decode_CommonHeaders cv v) = '''')
      \<and> (no_scalar (lookup v ''subject'') \<longrightarrow> subject (decode_CommonHeaders cv v) = '''')"
    by (simp add: decode_CommonHeaders_def scalar_text_default list_of_text_default)
  have Header_fields:
    "(no_scalar (lookup v ''name'') \<longrightarrow> name (decode_Header cv v) = '''')
      \<and> (no_scalar (lookup v ''value'') \<longrightarrow> value (decode_Header cv v) = '''')"
    by (simp add: decode_Header_def scalar_text_default)
  have never_fails: "\<exists>rt. deserializeObject_Root cv body = Inr rt"
    by (simp add: deserializeObject_Root_def)
  have summary: "\<forall>r rs. Records (decode_Root cv body) = r # rs \<and> mail (ses r) = new_Mail \<longrightarrow>
         (\<exists>d. handleEmail (deserializeObject_Root cv) env body = Inr d
              \<and> emisor d = Some '''' \<and> receptor d = [])"
  proof (intro allI impI)
    fix r rs
    assume a: "Records (decode_Root cv body) = r # rs \<and> mail (ses r) = new_Mail"
    have "handleEmail (deserializeObject_Root cv) env body = summarize env (decode_Root cv body)"
      by (simp add: handleEmail_decoded deserializeObject_Root_def)
    with a show "\<exists>d. handleEmail (deserializeObject_Root cv) env body = Inr d
              \<and> emisor d = Some '''' \<and> receptor d = []"
      by (simp add: summarize_Cons new_Mail_def)
  qed
  from never_fails Record_fields Ses_fields Receipt_fields Verdict_fields Action_fields
    Mail_fields CommonHeaders_fields Header_fields summary
  show ?thesis
    by (intro conjI) (erule conjE | assumption)+
qed

theorem C3_absent_fields_get_defaults_witness:
  "no_scalar (lookup (JObj []) ''eventVersion'')
   \<and> eventVersion (decode_Record no_conversions (JObj [])) = ''''
   \<and> no_mapping (lookup (JObj []) ''ses'')
   \<and> ses (decode_Record no_conversions (JObj [])) = new_Ses
   \<and> no_mapping (lookup (JObj [(''receipt'', mixed_receipt_json)]) ''mail'')
   \<and> mail (decode_Ses no_conversions (JObj [(''receipt'', mixed_receipt_json)])) = new_Mail
   \<and> (\<exists>d. handleEmail (deserializeObject_Root no_conversions) sample_env body_without_mail
              = Inr d
         \<and> emisor d = Some '''' \<and> receptor d = [])"
proof -
  note empty = C3_absent_fields_get_defaults
    [of no_conversions body_without_mail "JObj []" sample_env]
  note ses = C3_absent_fields_get_defaults
    [of no_conversions body_without_mail "JObj [(''receipt'', mixed_receipt_json)]"
      sample_env]
  have h1: "no_scalar (lookup (JObj []) ''eventVersion'')"
    and h2: "no_mapping (lookup (JObj []) ''ses'')"
    by (simp_all add: lookup_empty)
  have h3: "no_mapping (lookup (JObj [(''receipt'', mixed_receipt_json)]) ''mail'')"
    by (simp add: lookup_ses_without_mail)
  have h4: "Records (decode_Root no_conversions body_without_mail) =
     \<lparr>eventVersion = ''1.0'',
      ses = \<lparr>receipt = decode_Receipt no_conversions mixed_receipt_json, mail = new_Mail\<rparr>,
      eventSource = ''''\<rparr> # []
     \<and> mail (ses \<lparr>eventVersion = ''1.0'',
      ses = \<lparr>receipt = decode_Receipt no_conversions mixed_receipt_json, mail = new_Mail\<rparr>,
      eventSource = ''''\<rparr>) = new_Mail"
    by (simp add: decode_body_without_mail)
  from empty [THEN conjunct2, THEN conjunct1, THEN conjunct1] h1
  have c1: "eventVersion (decode_Record no_conversions (JObj [])) = ''''"
    by (rule mp)
  from empty [THEN conjunct2, THEN conjunct1, THEN conjunct2, THEN conjunct1] h2
  have c2: "ses (decode_Record no_conversions (JObj [])) = new_Ses"
    by (rule mp)
  from ses [THEN conjunct2, THEN conjunct2, THEN conjunct1, THEN conjunct2] h3
  have c3: "mail (decode_Ses no_conversions (JObj [(''receipt'', mixed_receipt_json)]))
      = new_Mail"
    by (rule mp)
  from empty [THEN conjunct2, THEN conjunct2, THEN conjunct2, THEN conjunct2,
      THEN conjunct2, THEN conjunct2, THEN conjunct2, THEN conjunct2, THEN conjunct2,
      THEN spec, THEN spec, THEN mp, OF h4]
  have c4: "\<exists>d. handleEmail (deserializeObject_Root no_conversions) sample_env
        body_without_mail = Inr d
      \<and> emisor d = Some '''' \<and> receptor d = []" .
  from h1 c1 h2 c2 h3 c3 c4 show ?thesis
    by (intro conjI)
qed

text \<open>
  Claim C4: a list field whose key is absent or whose value is no list decodes to the
  empty list; a list field whose value is a list decodes to a list of the same length
  whose element at every index is the decoded element of the input at that index, where
  an element that is no scalar or has no conversion to a text (for a list of texts) or
  that is no mapping (for a list of objects) decodes to the default of the element, in
  its place. The list fields are
  \<open>from\<close> and \<open>to\<close> of \<open>CommonHeaders\<close>, \<open>destination\<close> and \<open>headers\<close> of \<open>Mail\<close>,
  \<open>recipients\<close> of \<open>Receipt\<close> and \<open>Records\<close> of \<open>Root\<close>.
\<close>

theorem C4_list_fields_keep_length_and_order:
  "((no_list (lookup v ''from'') \<longrightarrow> from (decode_CommonHeaders cv v) = [])
      \<and> (lookup v ''from'' = Some (JArr xs) \<longrightarrow>
            length (from (decode_CommonHeaders cv v)) = length xs
            \<and> (\<forall>i < length xs. from (decode_CommonHeaders cv v) ! i = text_elem cv (xs ! i))))
   \<and> ((no_list (lookup v ''to'') \<longrightarrow> to (decode_CommonHeaders cv v) = [])
      \<and> (lookup v ''to'' = Some (JArr xs) \<longrightarrow>
            length (to (decode_CommonHeaders cv v)) = length xs
            \<and> (\<forall>i < length xs. to (decode_CommonHeaders cv v) ! i = text_elem cv (xs ! i))))
   \<and> ((no_list (lookup v ''destination'') \<longrightarrow> destination (decode_Mail cv v) = [])
      \<and> (lookup v ''destination'' = Some (JArr xs) \<longrightarrow>
            length (destination (decode_Mail cv v)) = length xs
            \<and> (\<forall>i < length xs. destination (decode_Mail cv v) ! i = text_elem cv (xs ! i))))
   \<and> ((no_list (lookup v ''recipients'') \<longrightarrow> recipients (decode_Receipt cv v) = [])
      \<and> (lookup v ''recipients'' = Some (JArr xs) \<longrightarrow>
            length (recipients (decode_Receipt cv v)) = length xs
            \<and> (\<forall>i < length xs. recipients (decode_Receipt cv v) ! i = text_elem cv (xs ! i))))
   \<and> ((no_list (lookup v ''headers'') \<longrightarrow> headers (decode_Mail cv v) = [])
      \<and> (lookup v ''headers'' = Some (JArr xs) \<longrightarrow>
            length (headers (decode_Mail cv v)) = length xs
            \<and> (\<forall>i < length xs.
                  headers (decode_Mail cv v) ! i = nested_elem (decode_Header cv) (xs ! i))))
   \<and> ((no_list (lookup v ''Records'') \<longrightarrow> Records (decode_Root cv v) = [])
      \<and> (lookup v ''Records'' = Some (JArr xs) \<longrightarrow>
            length (Records (decode_Root cv v)) = length xs
            \<and> (\<forall>i < length xs.
                  Records (decode_Root cv v) ! i = nested_elem (decode_Record cv) (xs ! i))))
   \<and> ((\<forall>s. text_elem cv (JStr s) = s)
      \<and> (\<forall>x. no_scalar (Some x) \<longrightarrow> text_elem cv x = '''')
      \<and> (\<forall>x. (\<forall>s. x \<noteq> JStr s) \<and> to_text cv x = None \<longrightarrow> text_elem cv x = ''''))
   \<and> ((\<forall>kvs. nested_elem (decode_Header cv) (JObj kvs) = decode_Header cv (JObj kvs))
      \<and> (\<forall>x. no_mapping (Some x) \<longrightarrow> nested_elem (decode_Header cv) x = new_Header))
   \<and> ((\<forall>kvs. nested_elem (decode_Record cv) (JObj kvs) = decode_Record cv (JObj kvs))
      \<and> (\<forall>x. no_mapping (Some x) \<longrightarrow> nested_elem (decode_Record cv) x = new_Record))"
proof -
  have from_field:
    "(no_list (lookup v ''from'') \<longrightarrow> from (decode_CommonHeaders cv v) = [])
      \<and> (lookup v ''from'' = Some (JArr xs) \<longrightarrow>
            length (from (decode_CommonHeaders cv v)) = length xs
            \<and> (\<forall>i < length xs. from (decode_CommonHeaders cv v) ! i = text_elem cv (xs ! i)))"
    by (simp add: decode_CommonHeaders_def list_of_text_default list_of_text_list)
  have to_field:
    "(no_list (lookup v ''to'') \<longrightarrow> to (decode_CommonHeaders cv v) = [])
      \<and> (lookup v ''to'' = Some (JArr xs) \<longrightarrow>
            length (to (decode_CommonHeaders cv v)) = length xs
            \<and> (\<forall>i < length xs. to (decode_CommonHeaders cv v) ! i = text_elem cv (xs ! i)))"
    by (simp add: decode_CommonHeaders_def list_of_text_default list_of_text_list)
  have destination_field:
    "(no_list (lookup v ''destination'') \<longrightarrow> destination (decode_Mail cv v) = [])
      \<and> (lookup v ''destination'' = Some (JArr xs) \<longrightarrow>
            length (destination (decode_Mail cv v)) = length xs
            \<and> (\<forall>i < length xs. destination (decode_Mail cv v) ! i = text_elem cv (xs ! i)))"
    by (simp add: decode_Mail_def list_of_text_default list_of_text_list)
  have recipients_field:
    "(no_list (lookup v ''recipients'') \<longrightarrow> recipients (decode_Receipt cv v) = [])
      \<and> (lookup v ''recipients'' = Some (JArr xs) \<longrightarrow>
            length (recipients (decode_Receipt cv v)) = length xs
            \<and> (\<forall>i < length xs. recipients (decode_Receipt cv v) ! i = text_elem cv (xs ! i)))"
    by (simp add: decode_Receipt_def list_of_text_default list_of_text_list)
  have headers_field:
    "(no_list (lookup v ''headers'') \<longrightarrow> headers (decode_Mail cv v) = [])
      \<and> (lookup v ''headers'' = Some (JArr xs) \<longrightarrow>
            length (headers (decode_Mail cv v)) = length xs
            \<and> (\<forall>i < length xs.
                  headers (decode_Mail cv v) ! i = nested_elem (decode_Header cv) (xs ! i)))"
    by (simp add: decode_Mail_def list_of_nested_default list_of_nested_list)
  have Records_field:
    "(no_list (lookup v ''Records'') \<longrightarrow> Records (decode_Root cv v) = [])
      \<and> (lookup v ''Records'' = Some (JArr xs) \<longrightarrow>
            length (Records (decode_Root cv v)) = length xs
            \<and> (\<forall>i < length xs.
                  Records (decode_Root cv v) ! i = nested_elem (decode_Record cv) (xs ! i)))"
    by (simp add: decode_Root_def list_of_nested_default list_of_nested_list)
  have text_elems:
    "(\<forall>s. text_elem cv (JStr s) = s)
      \<and> (\<forall>x. no_scalar (Some x) \<longrightarrow> text_elem cv x = '''')
      \<and> (\<forall>x. (\<forall>s. x \<noteq> JStr s) \<and> to_text cv x = None \<longrightarrow> text_elem cv x = '''')"
    by (simp add: text_elem_text text_elem_default text_elem_unconverted)
  have Header_elems:
    "(\<forall>kvs. nested_elem (decode_Header cv) (JObj kvs) = decode_Header cv (JObj kvs))
      \<and> (\<forall>x. no_mapping (Some x) \<longrightarrow> nested_elem (decode_Header cv) x = new_Header)"
    by (simp add: nested_elem_mapping nested_elem_default decode_Header_empty)
  have Record_elems:
    "(\<forall>kvs. nested_elem (decode_Record cv) (JObj kvs) = decode_Record cv (JObj kvs))
      \<and> (\<forall>x. no_mapping (Some x) \<longrightarrow> nested_elem (decode_Record cv) x = new_Record)"
    by (simp add: nested_elem_mapping nested_elem_default decode_Record_empty)
  from from_field to_field destination_field recipients_field headers_field Records_field
    text_elems Header_elems Record_elems
  show ?thesis
    by (intro conjI) (erule conjE | assumption)+
qed

theorem C4_list_fields_keep_length_and_order_witness:
  "lookup mixed_receipt_json ''recipients''
      = Some (JArr [JStr ''bob@example.com'', JNull, JObj []])
   \<and> no_scalar (Some JNull) \<and> no_scalar (Some (JObj []))
   \<and> length (recipients (decode_Receipt no_conversions mixed_receipt_json)) = 3
   \<and> recipients (decode_Receipt no_conversions mixed_receipt_json) ! 0 = ''bob@example.com''
   \<and> recipients (decode_Receipt no_conversions mixed_receipt_json) ! 1 = ''''
   \<and> recipients (decode_Receipt no_conversions mixed_receipt_json) ! 2 = ''''
   \<and> no_list (lookup (JObj []) ''recipients'')
   \<and> recipients (decode_Receipt no_conversions (JObj [])) = []"
proof -
  note mixed = C4_list_fields_keep_length_and_order
    [of mixed_receipt_json no_conversions "[JStr ''bob@example.com'', JNull, JObj []]"]
  note empty = C4_list_fields_keep_length_and_order [of "JObj []" no_conversions "[]"]
  have h1: "lookup mixed_receipt_json ''recipients''
      = Some (JArr [JStr ''bob@example.com'', JNull, JObj []])"
    by (rule lookup_mixed_recipients)
  have h2: "no_scalar (Some JNull)" and h3: "no_scalar (Some (JObj []))"
    by simp_all
  have h4: "no_list (lookup (JObj []) ''recipients'')"
    by (simp add: lookup_empty)
  let ?rs = "recipients (decode_Receipt no_conversions mixed_receipt_json)"
  from mixed [THEN conjunct2, THEN conjunct2, THEN conjunct2, THEN conjunct1,
      THEN conjunct2] h1
  have len: "length ?rs = length [JStr ''bob@example.com'', JNull, JObj []]"
    and nth: "\<forall>i < length [JStr ''bob@example.com'', JNull, JObj []].
        ?rs ! i = text_elem no_conversions ([JStr ''bob@example.com'', JNull, JObj []] ! i)"
    by simp_all
  note elems = mixed [THEN conjunct2, THEN conjunct2, THEN conjunct2, THEN conjunct2,
      THEN conjunct2, THEN conjunct2, THEN conjunct1]
  from elems have e0: "text_elem no_conversions (JStr ''bob@example.com'') = ''bob@example.com''"
    by simp
  from elems h2 have e1: "text_elem no_conversions JNull = ''''"
    by simp
  from elems h3 have e2: "text_elem no_conversions (JObj []) = ''''"
    by simp
  from len have l: "length ?rs = 3"
    by simp
  from nth have n0: "?rs ! 0 = ''bob@example.com''" and n1: "?rs ! 1 = ''''"
    and n2: "?rs ! 2 = ''''"
    by (simp_all add: e0 e1 e2)
  from empty [THEN conjunct2, THEN conjunct2, THEN conjunct2, THEN conjunct1,
      THEN conjunct1] h4
  have c2: "recipients (decode_Receipt no_conversions (JObj [])) = []"
    by (rule mp)
  from h1 h2 h3 l n0 n1 n2 h4 c2 show ?thesis
    by (intro conjI)
qed

end
